theory Spec2Isabelle
  imports Complex_Main "HOL-Library.Monad_Syntax"
begin

section \<open>Numbers and table lookups of the JavaScript source\<close>

text \<open>
  The source computes with JavaScript numbers. The embedding uses exact real arithmetic on
  finite values: rounding of IEEE doubles and the value Infinity are outside the model.
  The one non-finite value the source can produce from finite inputs is NaN (arithmetic on
  a value that is not a number); \<open>jsnum\<close> writes it as \<open>None\<close>.
\<close>

type_synonym jsnum = "real option"

datatype js_error = TypeError

text \<open>
  The per-status tables are object literals indexed by a string, \<open>TABLE[filingStatus]\<close>.
  Such a read finds the table's own keys, and otherwise the properties every object inherits
  from \<open>Object.prototype\<close>; only a key found in neither place reads as \<open>undefined\<close>.
  An inherited property is a function object (for \<open>__proto__\<close> the prototype object
  itself): it is truthy, so \<open>TABLE[k] || dflt\<close> keeps it. The second component below is the
  \<open>length\<close> property of the inherited value (\<open>None\<close> where it has none).
\<close>

definition Object_prototype :: "(string \<times> nat option) list" where
  "Object_prototype =
     [(''constructor'', Some 1), (''__defineGetter__'', Some 2), (''__defineSetter__'', Some 2),
      (''hasOwnProperty'', Some 1), (''__lookupGetter__'', Some 1), (''__lookupSetter__'', Some 1),
      (''isPrototypeOf'', Some 1), (''propertyIsEnumerable'', Some 1), (''toString'', Some 0),
      (''valueOf'', Some 0), (''__proto__'', None), (''toLocaleString'', Some 0)]"

datatype 'a lookup = Own 'a | Inherited "nat option" | Missing

definition get_prop :: "(string \<times> 'a) list \<Rightarrow> string \<Rightarrow> 'a lookup" where
  "get_prop table k =
     (case map_of table k of
        Some v \<Rightarrow> Own v
      | None \<Rightarrow> (case map_of Object_prototype k of
                   Some len \<Rightarrow> Inherited len
                 | None \<Rightarrow> Missing))"

definition inherited_key :: "string \<Rightarrow> bool" where
  "inherited_key k = (k \<in> set (map fst Object_prototype))"

section \<open>Tables\<close>

type_synonym brackets = "(real \<times> real) list"

definition TAX_BRACKETS_2025_single :: brackets where
  "TAX_BRACKETS_2025_single =
     [(0, 0.10), (11925, 0.12), (48475, 0.22), (103350, 0.24),
      (197300, 0.32), (250525, 0.35), (626350, 0.37)]"

definition TAX_BRACKETS_2025 :: "(string \<times> brackets) list" where
  "TAX_BRACKETS_2025 =
     [(''single'', TAX_BRACKETS_2025_single),
      (''married'',
        [(0, 0.10), (23850, 0.12), (96950, 0.22), (206700, 0.24),
         (394600, 0.32), (501050, 0.35), (751600, 0.37)]),
      (''marriedSeparate'',
        [(0, 0.10), (11925, 0.12), (48475, 0.22), (103350, 0.24),
         (197300, 0.32), (250525, 0.35), (375800, 0.37)]),
      (''head'',
        [(0, 0.10), (17000, 0.12), (64850, 0.22), (103350, 0.24),
         (197300, 0.32), (250500, 0.35), (626350, 0.37)]),
      (''widow'',
        [(0, 0.10), (23850, 0.12), (96950, 0.22), (206700, 0.24),
         (394600, 0.32), (501050, 0.35), (751600, 0.37)])]"

definition STANDARD_DEDUCTIONS_2025_single :: real where
  "STANDARD_DEDUCTIONS_2025_single = 15700"

definition STANDARD_DEDUCTIONS_2025 :: "(string \<times> real) list" where
  "STANDARD_DEDUCTIONS_2025 =
     [(''single'', STANDARD_DEDUCTIONS_2025_single), (''married'', 31400), (''marriedSeparate'', 15700),
      (''head'', 23500), (''widow'', 31400)]"

definition CAPITAL_GAINS_BRACKETS_2025_single :: brackets where
  "CAPITAL_GAINS_BRACKETS_2025_single = [(0, 0), (48350, 0.15), (533400, 0.20)]"

definition CAPITAL_GAINS_BRACKETS_2025 :: "(string \<times> brackets) list" where
  "CAPITAL_GAINS_BRACKETS_2025 =
     [(''single'', CAPITAL_GAINS_BRACKETS_2025_single),
      (''married'', [(0, 0), (96700, 0.15), (600050, 0.20)]),
      (''marriedSeparate'', [(0, 0), (48350, 0.15), (300025, 0.20)]),
      (''head'', [(0, 0), (64750, 0.15), (566700, 0.20)]),
      (''widow'', [(0, 0), (96700, 0.15), (600050, 0.20)])]"

text \<open>
  \<open>TABLE[k] || dflt\<close> on a table of numbers: an own entry that is not 0, else the
  default; an inherited property is kept, and is not a number.
\<close>

definition number_or :: "real lookup \<Rightarrow> real \<Rightarrow> jsnum" where
  "number_or l dflt =
     (case l of
        Own v \<Rightarrow> Some (if v = 0 then dflt else v)
      | Missing \<Rightarrow> Some dflt
      | Inherited len \<Rightarrow> None)"

text \<open>
  \<open>TABLE[k] || TABLE.single\<close> on a table of arrays (an array is truthy, also when
  empty): the entry, the single schedule, or the inherited value with its \<open>length\<close>.
\<close>

datatype bracket_table = Array brackets | NotArray "nat option"

definition array_or :: "brackets lookup \<Rightarrow> brackets \<Rightarrow> bracket_table" where
  "array_or l dflt =
     (case l of
        Own bs \<Rightarrow> Array bs
      | Missing \<Rightarrow> Array dflt
      | Inherited len \<Rightarrow> NotArray len)"

section \<open>calculateBracketTax\<close>

text \<open>
  The \<open>for\<close> loop of \<open>calculateBracketTax\<close>, from index \<open>i\<close> on, with the running
  \<open>tax\<close>. The upper limit of the last bracket is Infinity, which no income exceeds, so
  the last bracket always takes the \<open>else\<close> branch and breaks.
\<close>

fun bracket_loop :: "real \<Rightarrow> brackets \<Rightarrow> real \<Rightarrow> real" where
  "bracket_loop income [] tax = tax"
| "bracket_loop income [(limit, rate)] tax = tax + (income - limit) * rate"
| "bracket_loop income ((limit, rate) # (nextLimit, nextRate) # rest) tax =
     (if income > nextLimit
      then bracket_loop income ((nextLimit, nextRate) # rest) (tax + (nextLimit - limit) * rate)
      else tax + (income - limit) * rate)"

definition calculateBracketTax :: "real \<Rightarrow> brackets \<Rightarrow> real" where
  "calculateBracketTax income brackets =
     (if income \<le> 0 then 0 else max 0 (bracket_loop income brackets 0))"

text \<open>
  A Bracket Schedule as the specification's data model describes it: the first threshold is
  0, thresholds increase strictly, rates do not decrease.
\<close>

definition valid_schedule :: "brackets \<Rightarrow> bool" where
  "valid_schedule bs =
     ((case bs of [] \<Rightarrow> False | (threshold, rate) # rest \<Rightarrow> threshold = 0) \<and>
      sorted_wrt (<) (map fst bs) \<and> sorted_wrt (\<le>) (map snd bs))"

section \<open>calculateCapitalGainsTax\<close>

text \<open>
  The loop runs over the brackets from the last to the first, so the model recurses on the
  reversed schedule, carrying \<open>tax\<close> and \<open>remainingGains\<close>; it stops as soon as no gains
  remain (the loop condition \<open>remainingGains > 0\<close>).
\<close>

fun gains_loop :: "real \<Rightarrow> real \<Rightarrow> brackets \<Rightarrow> real \<Rightarrow> real \<Rightarrow> real" where
  "gains_loop taxableIncome totalIncome [] tax remainingGains = tax"
| "gains_loop taxableIncome totalIncome ((threshold, rate) # rest) tax remainingGains =
     (if remainingGains > 0
      then (if totalIncome > threshold
            then (let gainsTaxedAtThisRate =
                        min remainingGains (totalIncome - max taxableIncome threshold)
                  in gains_loop taxableIncome totalIncome rest
                       (tax + gainsTaxedAtThisRate * rate)
                       (remainingGains - gainsTaxedAtThisRate))
            else gains_loop taxableIncome totalIncome rest tax remainingGains)
      else tax)"

text \<open>
  With an inherited property in place of the schedule, \<open>brackets.length - 1\<close> is the first
  index: a function of length 0 (and an object without \<open>length\<close>) skips the loop, any other
  reads \<open>brackets[i]\<close> as \<open>undefined\<close> and the destructuring raises a TypeError.
\<close>

definition calculateCapitalGainsTax :: "real \<Rightarrow> real \<Rightarrow> string \<Rightarrow> js_error + real" where
  "calculateCapitalGainsTax taxableIncome capitalGains filingStatus =
     (if capitalGains \<le> 0 then Inr 0
      else (case array_or (get_prop CAPITAL_GAINS_BRACKETS_2025 filingStatus)
                   CAPITAL_GAINS_BRACKETS_2025_single of
              Array brackets \<Rightarrow>
                (let totalIncome = taxableIncome + capitalGains
                 in Inr (max 0 (gains_loop taxableIncome totalIncome (rev brackets) 0 capitalGains)))
            | NotArray len \<Rightarrow>
                (case len of
                   None \<Rightarrow> Inr 0
                 | Some n \<Rightarrow> if n = 0 then Inr 0 else Inl TypeError)))"

section \<open>calculateSelfEmploymentTax\<close>

record se_result =
  tax :: jsnum
  deduction :: jsnum

definition se_thresholds :: "(string \<times> real) list" where
  "se_thresholds =
     [(''single'', 200000), (''head'', 200000), (''married'', 250000),
      (''widow'', 250000), (''marriedSeparate'', 125000)]"

definition calculateSelfEmploymentTax :: "real \<Rightarrow> real \<Rightarrow> string \<Rightarrow> se_result" where
  "calculateSelfEmploymentTax netSelfEmploymentIncome wages filingStatus =
     (if netSelfEmploymentIncome \<le> 0 then \<lparr>tax = Some 0, deduction = Some 0\<rparr>
      else
        (let taxableBase = netSelfEmploymentIncome * 0.9235;
             ssWageBase = 176100;
             remainingSSBase = max 0 (ssWageBase - min ssWageBase wages);
             ssTaxableSE = min taxableBase remainingSSBase;
             ssTax = ssTaxableSE * 0.124;
             medicareTax = taxableBase * 0.029;
             threshold = number_or (get_prop se_thresholds filingStatus) 200000;
             addlBase = map_option (\<lambda>t. max 0 (taxableBase - max 0 (t - wages))) threshold;
             additionalMedicare = map_option (\<lambda>b. b * 0.009) addlBase;
             totalTax = map_option (\<lambda>a. ssTax + medicareTax + a) additionalMedicare;
             deduction = map_option (\<lambda>t. t * 0.5) totalTax
         in \<lparr>tax = totalTax, deduction = deduction\<rparr>))"

section \<open>calculateNIIT\<close>

definition niit_thresholds :: "(string \<times> real) list" where
  "niit_thresholds =
     [(''single'', 200000), (''married'', 250000), (''marriedSeparate'', 125000),
      (''head'', 200000), (''widow'', 250000)]"

definition calculateNIIT :: "real \<Rightarrow> real \<Rightarrow> string \<Rightarrow> jsnum" where
  "calculateNIIT agi netInvestmentIncome filingStatus =
     (let threshold = number_or (get_prop niit_thresholds filingStatus) 200000;
          excessAGI = map_option (\<lambda>t. max 0 (agi - t)) threshold;
          taxableNII = map_option (\<lambda>e. min e netInvestmentIncome) excessAGI
      in map_option (\<lambda>t. t * 0.038) taxableNII)"

section \<open>The Tax Form\<close>

text \<open>
  A numeric form field is read as \<open>parseFloat(form.x) || 0\<close>. \<open>Num v\<close> is a value that
  \<open>parseFloat\<close> reads as the finite number \<open>v\<close>, \<open>NotNumeric\<close> a defined value it reads
  as NaN, \<open>Undefined\<close> an absent field.
\<close>

datatype field = Undefined | NotNumeric | Num real

definition parseFloat_or :: "field \<Rightarrow> real \<Rightarrow> real" where
  "parseFloat_or x dflt = (case x of Num v \<Rightarrow> (if v = 0 then dflt else v) | _ \<Rightarrow> dflt)"

definition toNum :: "field \<Rightarrow> real" where
  "toNum x = parseFloat_or x 0"

record scheduleC_fields =
  netProfit :: field
  grossReceipts :: field
  expenses :: field

record scheduleE_fields =
  netIncome :: field
  rentalIncome :: field
  rentalExpenses :: field

record scheduleD_fields =
  shortTermGain :: field
  shortTermLoss :: field
  longTermGain :: field
  longTermLoss :: field

record scheduleK1_fields =
  guaranteedPayments :: field
  ordinaryIncome :: field

text \<open>The two flags of a dependent record that the core reads, as truth values.\<close>

record dependent =
  qualifyingChild :: bool
  dep_childTaxCredit :: bool

text \<open>
  \<open>calculateAge\<close> builds two Date objects, \<open>new Date()\<close> and
  \<open>new Date(birthDate)\<close>, and reads both with the local-time getters \<open>getFullYear\<close>,
  \<open>getMonth\<close> (0 to 11) and \<open>getDate\<close>. A Date is a time value, the milliseconds since
  the epoch; what the getters return for it depends on the time zone of the process. So the
  function has two inputs that are not in the form, the system clock and the time zone. The
  record \<open>environment\<close> holds them: \<open>now\<close> is the time value of \<open>new Date()\<close>, \<open>zone\<close>
  gives the local calendar fields of a time value, and \<open>parse\<close> is the time value that
  \<open>new Date\<close> reads from a string (\<open>None\<close> when the Date is invalid). A date-only string
  such as '1960-11-04' is read as midnight UTC of that day in every zone; a date with a time
  and no offset is read as local time, which is why \<open>parse\<close> belongs to the environment.
\<close>

record date =
  fullYear :: int
  month :: int
  day :: int

record environment =
  now :: int
  zone :: "int \<Rightarrow> date"
  parse :: "string \<Rightarrow> int option"

text \<open>
  What \<open>form.birthDate\<close> holds: nothing or a falsy value (\<open>NoBirthDate\<close>), a string, or a
  Date object or number with a time value.
\<close>

datatype date_value = DateString string | TimeValue int

datatype birth = NoBirthDate | BirthDate date_value

record form =
  filingStatus :: "string option"
  totalWages :: field
  taxableInterest :: field
  ordinaryDividends :: field
  qualifiedDividends :: field
  taxableIra :: field
  taxablePensions :: field
  taxableSocialSecurity :: field
  capitalGainLoss :: field
  otherIncome :: field
  hasScheduleC :: bool
  scheduleC :: "scheduleC_fields option"
  hasScheduleE :: bool
  scheduleE :: "scheduleE_fields option"
  hasScheduleD :: bool
  scheduleD :: "scheduleD_fields option"
  educatorExpenses :: field
  hsaDeduction :: field
  selfEmploymentTaxDeduction :: field
  selfEmployedSEPSimple :: field
  selfEmployedHealthInsurance :: field
  penaltyEarlyWithdrawal :: field
  alimonyPaid :: field
  iraDeduction :: field
  studentLoanInterest :: field
  useObbba2025 :: "bool option"
  tipIncome :: field
  overtimeIncome :: field
  autoLoanInterest :: field
  birthDate :: birth
  stateLocalTaxes :: field
  realEstateTaxes :: field
  medicalExpenses :: field
  mortgageInterest :: field
  charityCash :: field
  charityNonCash :: field
  casualtyLosses :: field
  otherItemized :: field
  deductionType :: "string option"
  scheduleK1 :: "scheduleK1_fields option"
  partnershipIncome :: field
  sCorpIncome :: field
  dependents :: "dependent list option"
  childTaxCredit :: field
  creditOtherDependents :: field
  educationCredits :: field
  retirementSaversCredit :: field
  childCareCredit :: field
  earnedIncomeCredit :: field
  otherCredits :: field
  totalWithholding :: field
  estimatedTaxPayments :: field
  amountAppliedFromPriorYear :: field

section \<open>Policy flags\<close>

text \<open>
  \<open>getPolicyFlags\<close>: \<open>useObbba2025\<close> is the truth value of the form's field when the
  field is defined, and true when it is not.
\<close>

definition getPolicyFlags :: "form \<Rightarrow> bool" where
  "getPolicyFlags f = (case useObbba2025 f of None \<Rightarrow> True | Some b \<Rightarrow> b)"

definition getSaltCap :: "string \<Rightarrow> form \<Rightarrow> real" where
  "getSaltCap fs f =
     (if getPolicyFlags f then (if fs = ''marriedSeparate'' then 20000 else 40000)
      else (if fs = ''marriedSeparate'' then 5000 else 10000))"

section \<open>calculateTotalTax\<close>

text \<open>
  The stages of \<open>calculateTotalTax\<close>, one definition per local constant of the source, in
  the source's order. A stage that depends on an earlier computed value takes it as an
  argument.
\<close>

definition filingStatus_of :: "form \<Rightarrow> string" where
  "filingStatus_of f =
     (case filingStatus f of None \<Rightarrow> ''single'' | Some s \<Rightarrow> if s = [] then ''single'' else s)"

definition scheduleC_of :: "form \<Rightarrow> real" where
  "scheduleC_of f =
     (case (if hasScheduleC f then scheduleC f else None) of
        None \<Rightarrow> 0
      | Some c \<Rightarrow>
          if netProfit c \<noteq> Undefined then toNum (netProfit c)
          else toNum (grossReceipts c) - toNum (expenses c))"

definition scheduleE_of :: "form \<Rightarrow> real" where
  "scheduleE_of f =
     (case (if hasScheduleE f then scheduleE f else None) of
        None \<Rightarrow> 0
      | Some e \<Rightarrow>
          if netIncome e \<noteq> Undefined then toNum (netIncome e)
          else toNum (rentalIncome e) - toNum (rentalExpenses e))"

text \<open>The four Schedule D amounts: short-term gain and loss, long-term gain and loss.\<close>

definition capitalAmounts :: "form \<Rightarrow> real \<times> real \<times> real \<times> real" where
  "capitalAmounts f =
     (case (if hasScheduleD f then scheduleD f else None) of
        Some d \<Rightarrow>
          (toNum (shortTermGain d), \<bar>toNum (shortTermLoss d)\<bar>,
           toNum (longTermGain d), \<bar>toNum (longTermLoss d)\<bar>)
      | None \<Rightarrow>
          if capitalGainLoss f \<noteq> Undefined
          then (let net = toNum (capitalGainLoss f)
                in if net \<ge> 0 then (0, 0, net, 0) else (0, 0, 0, \<bar>net\<bar>))
          else (0, 0, 0, 0))"

definition netShortTerm_of :: "form \<Rightarrow> real" where
  "netShortTerm_of f =
     (case capitalAmounts f of (stGain, stLoss, ltGain, ltLoss) \<Rightarrow> stGain - stLoss)"

definition netLongTerm_of :: "form \<Rightarrow> real" where
  "netLongTerm_of f =
     (case capitalAmounts f of (stGain, stLoss, ltGain, ltLoss) \<Rightarrow> ltGain - ltLoss)"

definition netCapital_of :: "form \<Rightarrow> real" where
  "netCapital_of f = netShortTerm_of f + netLongTerm_of f"

definition capLossLimit_of :: "form \<Rightarrow> real" where
  "capLossLimit_of f = (if filingStatus_of f = ''marriedSeparate'' then 1500 else 3000)"

definition cappedCapitalForAGI_of :: "form \<Rightarrow> real" where
  "cappedCapitalForAGI_of f =
     (if netCapital_of f \<ge> 0 then netCapital_of f
      else - min (capLossLimit_of f) \<bar>netCapital_of f\<bar>)"

definition totalIncome_of :: "form \<Rightarrow> real" where
  "totalIncome_of f =
     toNum (totalWages f) + toNum (taxableInterest f) + toNum (ordinaryDividends f) +
     toNum (taxableIra f) + toNum (taxablePensions f) + toNum (taxableSocialSecurity f) +
     toNum (otherIncome f) + scheduleC_of f + scheduleE_of f + cappedCapitalForAGI_of f"

text \<open>The time value of \<open>new Date(birthDate)\<close>; \<open>None\<close> for an invalid Date.\<close>

definition newDate :: "environment \<Rightarrow> date_value \<Rightarrow> int option" where
  "newDate env v = (case v of DateString s \<Rightarrow> parse env s | TimeValue t \<Rightarrow> Some t)"

text \<open>
  \<open>calculateAge\<close> takes the environment as an argument. The getters of an invalid Date
  return NaN, and so does the function (\<open>None\<close>).
\<close>

definition calculateAge :: "environment \<Rightarrow> birth \<Rightarrow> int option" where
  "calculateAge env b =
     (case b of
        NoBirthDate \<Rightarrow> Some 40
      | BirthDate v \<Rightarrow>
          (case newDate env v of
             None \<Rightarrow> None
           | Some birthTime \<Rightarrow>
               (let today = zone env (now env);
                    birth = zone env birthTime;
                    age = fullYear today - fullYear birth;
                    monthDiff = month today - month birth
                in Some (if monthDiff < 0 \<or> (monthDiff = 0 \<and> day today < day birth)
                         then age - 1 else age))))"

definition phaseOutStart :: "string \<Rightarrow> real" where
  "phaseOutStart fs = (if fs = ''married'' then 300000 else 150000)"

definition phaseOutEnd :: "string \<Rightarrow> real" where
  "phaseOutEnd fs = (if fs = ''married'' then 550000 else 400000)"

definition getPhaseOutPct :: "string \<Rightarrow> real \<Rightarrow> real" where
  "getPhaseOutPct fs income =
     (if income \<le> phaseOutStart fs then 1
      else if income \<ge> phaseOutEnd fs then 0
      else 1 - ((income - phaseOutStart fs) / (phaseOutEnd fs - phaseOutStart fs)))"

definition tentativeAdjustments_of :: "form \<Rightarrow> real" where
  "tentativeAdjustments_of f =
     toNum (educatorExpenses f) + toNum (hsaDeduction f) +
     toNum (selfEmploymentTaxDeduction f) + toNum (selfEmployedSEPSimple f) +
     toNum (selfEmployedHealthInsurance f) + toNum (penaltyEarlyWithdrawal f) +
     toNum (alimonyPaid f) + toNum (iraDeduction f) + toNum (studentLoanInterest f)"

definition magiForPhaseOut_of :: "form \<Rightarrow> real" where
  "magiForPhaseOut_of f = totalIncome_of f - tentativeAdjustments_of f"

definition phaseOutPct_of :: "form \<Rightarrow> real" where
  "phaseOutPct_of f = getPhaseOutPct (filingStatus_of f) (magiForPhaseOut_of f)"

definition tipsDeduction_of :: "form \<Rightarrow> real" where
  "tipsDeduction_of f =
     (if getPolicyFlags f then min (toNum (tipIncome f)) 25000 * phaseOutPct_of f else 0)"

definition overtimeDeduction_of :: "form \<Rightarrow> real" where
  "overtimeDeduction_of f =
     (if getPolicyFlags f then min (toNum (overtimeIncome f)) 12500 * phaseOutPct_of f else 0)"

definition autoLoanDeduction_of :: "form \<Rightarrow> real" where
  "autoLoanDeduction_of f =
     (if getPolicyFlags f then min (toNum (autoLoanInterest f)) 10000 else 0)"

text \<open>The test \<open>calculateAge(form.birthDate) >= 65\<close>; it is false on NaN.\<close>

definition ageAtLeast65 :: "environment \<Rightarrow> form \<Rightarrow> bool" where
  "ageAtLeast65 env f =
     (case calculateAge env (birthDate f) of Some age \<Rightarrow> age \<ge> 65 | None \<Rightarrow> False)"

definition seniorBonus_of :: "environment \<Rightarrow> form \<Rightarrow> real" where
  "seniorBonus_of env f = (if getPolicyFlags f \<and> ageAtLeast65 env f then 6000 else 0)"

definition totalAdjustments_of :: "environment \<Rightarrow> form \<Rightarrow> real \<Rightarrow> real" where
  "totalAdjustments_of env f seTaxDeductionComputed =
     toNum (educatorExpenses f) + toNum (hsaDeduction f) +
     max (toNum (selfEmploymentTaxDeduction f)) seTaxDeductionComputed +
     toNum (selfEmployedSEPSimple f) + toNum (selfEmployedHealthInsurance f) +
     toNum (penaltyEarlyWithdrawal f) + toNum (alimonyPaid f) + toNum (iraDeduction f) +
     toNum (studentLoanInterest f) +
     tipsDeduction_of f + overtimeDeduction_of f + autoLoanDeduction_of f +
     seniorBonus_of env f"

definition actualSalt_of :: "form \<Rightarrow> real" where
  "actualSalt_of f =
     min (toNum (stateLocalTaxes f) + toNum (realEstateTaxes f))
         (getSaltCap (filingStatus_of f) f)"

definition medicalDeductible_of :: "form \<Rightarrow> real \<Rightarrow> real" where
  "medicalDeductible_of f agi = max 0 (toNum (medicalExpenses f) - agi * 0.075)"

definition itemizedTotal_of :: "form \<Rightarrow> real \<Rightarrow> real" where
  "itemizedTotal_of f agi =
     medicalDeductible_of f agi + actualSalt_of f + toNum (mortgageInterest f) +
     toNum (charityCash f) + toNum (charityNonCash f) + toNum (casualtyLosses f) +
     toNum (otherItemized f)"

definition deduction_of :: "form \<Rightarrow> real \<Rightarrow> real \<Rightarrow> real" where
  "deduction_of f agi standardDeduction =
     (if deductionType f = Some ''itemized'' then itemizedTotal_of f agi else standardDeduction)"

definition qbiEligible_of :: "form \<Rightarrow> real" where
  "qbiEligible_of f =
     (let k1GuaranteedPayments =
            toNum (case scheduleK1 f of None \<Rightarrow> Undefined | Some k \<Rightarrow> guaranteedPayments k);
          k1OrdinaryIncome =
            toNum (case scheduleK1 f of None \<Rightarrow> Undefined | Some k \<Rightarrow> ordinaryIncome k);
          partnership = parseFloat_or (partnershipIncome f) k1OrdinaryIncome;
          sCorp = toNum (sCorpIncome f)
      in max 0 (scheduleC_of f) + max 0 (partnership + sCorp - k1GuaranteedPayments))"

definition qbiDeduction_of :: "form \<Rightarrow> real \<Rightarrow> real \<Rightarrow> real" where
  "qbiDeduction_of f agi deductionUsed =
     (if qbiEligible_of f > 0
      then (let tentativeQBI = qbiEligible_of f * 0.20;
                taxableBeforeQBI = max 0 (agi - deductionUsed);
                netCapGainForLimit = max 0 (netLongTerm_of f) + max 0 (toNum (qualifiedDividends f));
                limit = (taxableBeforeQBI - netCapGainForLimit) * 0.20
            in min tentativeQBI (max 0 limit))
      else 0)"

definition totalQualifiedIncome_of :: "form \<Rightarrow> real" where
  "totalQualifiedIncome_of f = toNum (qualifiedDividends f) + max 0 (netLongTerm_of f)"

definition investmentIncome_of :: "form \<Rightarrow> real" where
  "investmentIncome_of f =
     toNum (taxableInterest f) + toNum (ordinaryDividends f) + max 0 (netCapital_of f) +
     scheduleE_of f"

definition dependents_of :: "form \<Rightarrow> dependent list" where
  "dependents_of f = (case dependents f of None \<Rightarrow> [] | Some ds \<Rightarrow> ds)"

definition estimatedChildCredit_of :: "form \<Rightarrow> real" where
  "estimatedChildCredit_of f =
     real (length (filter (\<lambda>d. qualifyingChild d \<and> dep_childTaxCredit d) (dependents_of f))) * 2000"

definition estimatedOtherDependentsCredit_of :: "form \<Rightarrow> real" where
  "estimatedOtherDependentsCredit_of f =
     real (length (filter (\<lambda>d. \<not> qualifyingChild d) (dependents_of f))) * 500"

definition totalCredits_of :: "form \<Rightarrow> real" where
  "totalCredits_of f =
     parseFloat_or (childTaxCredit f) (estimatedChildCredit_of f) +
     parseFloat_or (creditOtherDependents f) (estimatedOtherDependentsCredit_of f) +
     toNum (educationCredits f) + toNum (retirementSaversCredit f) +
     toNum (childCareCredit f) + toNum (earnedIncomeCredit f) + toNum (otherCredits f)"

definition nonRefundableCredits_of :: "form \<Rightarrow> real" where
  "nonRefundableCredits_of f =
     parseFloat_or (childTaxCredit f) (estimatedChildCredit_of f) +
     parseFloat_or (creditOtherDependents f) (estimatedOtherDependentsCredit_of f) +
     toNum (educationCredits f) + toNum (retirementSaversCredit f) +
     toNum (childCareCredit f)"

definition refundableCredits_of :: "form \<Rightarrow> real" where
  "refundableCredits_of f = toNum (earnedIncomeCredit f) + toNum (otherCredits f)"

definition totalPayments_of :: "form \<Rightarrow> real" where
  "totalPayments_of f =
     toNum (totalWithholding f) + toNum (estimatedTaxPayments f) +
     toNum (amountAppliedFromPriorYear f)"

text \<open>
  \<open>calculateBracketTax\<close> as the orchestrator calls it, on whatever the bracket lookup
  gave: an inherited property has no elements, so the first pass of the loop (when its
  \<open>length\<close> lets the loop start) destructures \<open>undefined\<close> and raises a TypeError.
\<close>

definition bracketTaxOn :: "real \<Rightarrow> bracket_table \<Rightarrow> js_error + real" where
  "bracketTaxOn income t =
     (case t of
        Array brackets \<Rightarrow> Inr (calculateBracketTax income brackets)
      | NotArray len \<Rightarrow>
          if income \<le> 0 then Inr 0
          else (case len of
                  None \<Rightarrow> Inr 0
                | Some n \<Rightarrow> if n = 0 then Inr 0 else Inl TypeError))"

definition returned :: "js_error + real \<Rightarrow> real option" where
  "returned r = (case r of Inl e \<Rightarrow> None | Inr v \<Rightarrow> Some v)"

record tax_result =
  totalIncome :: real
  totalAdjustments :: real
  agi :: real
  deduction :: real
  taxableIncome :: real
  regularTax :: real
  capitalGainsTax :: real
  seTax :: real
  totalTaxBeforeCredits :: real
  totalCredits :: real
  finalTax :: real
  totalPayments :: real
  refundOrOwed :: real
  isRefund :: bool

text \<open>
  The orchestrator. Its value is \<open>None\<close> when the call yields no Tax Result of numbers:
  a step on an inherited table property raised a TypeError, or gave NaN or the inherited
  function object itself, which then sits in the result's fields. All per-status lookups use
  the same key, and \<open>calculateNIIT\<close> is always reached with it, so this happens exactly for
  the keys of \<open>Object_prototype\<close>.
\<close>

definition calculateTotalTax :: "environment \<Rightarrow> form \<Rightarrow> tax_result option" where
  "calculateTotalTax env f =
     do {
       let filingStatus = filingStatus_of f;
       let totalIncome = totalIncome_of f;
       let wagesForSET = toNum (totalWages f);
       seTaxDeductionComputed \<leftarrow>
         se_result.deduction (calculateSelfEmploymentTax (scheduleC_of f) wagesForSET filingStatus);
       let totalAdjustments = totalAdjustments_of env f seTaxDeductionComputed;
       let agi = totalIncome - totalAdjustments;
       standardDeduction \<leftarrow>
         number_or (get_prop STANDARD_DEDUCTIONS_2025 filingStatus) STANDARD_DEDUCTIONS_2025_single;
       let deduction = deduction_of f agi standardDeduction;
       let qbiDeduction = qbiDeduction_of f agi deduction;
       let taxableIncome = max 0 (agi - deduction - qbiDeduction);
       let totalQualifiedIncome = totalQualifiedIncome_of f;
       let ordinaryTaxableIncome = max 0 (taxableIncome - totalQualifiedIncome);
       let brackets = array_or (get_prop TAX_BRACKETS_2025 filingStatus) TAX_BRACKETS_2025_single;
       regularTax \<leftarrow> returned (bracketTaxOn ordinaryTaxableIncome brackets);
       capitalGainsTax \<leftarrow>
         returned (calculateCapitalGainsTax ordinaryTaxableIncome totalQualifiedIncome filingStatus);
       seTax \<leftarrow>
         se_result.tax (calculateSelfEmploymentTax (scheduleC_of f) wagesForSET filingStatus);
       niit \<leftarrow> calculateNIIT agi (investmentIncome_of f) filingStatus;
       let totalTaxBeforeCredits = regularTax + capitalGainsTax + seTax + niit;
       let taxAfterNonRefundable = max 0 (totalTaxBeforeCredits - nonRefundableCredits_of f);
       let finalTax = taxAfterNonRefundable - refundableCredits_of f;
       let totalPayments = totalPayments_of f;
       let refundOrOwed = totalPayments - finalTax;
       Some \<lparr>totalIncome = totalIncome,
             totalAdjustments = totalAdjustments,
             agi = agi,
             deduction = deduction,
             taxableIncome = taxableIncome,
             regularTax = regularTax,
             capitalGainsTax = capitalGainsTax,
             seTax = seTax,
             totalTaxBeforeCredits = totalTaxBeforeCredits,
             totalCredits = totalCredits_of f,
             finalTax = finalTax,
             totalPayments = totalPayments,
             refundOrOwed = refundOrOwed,
             isRefund = (refundOrOwed \<ge> 0)\<rparr>
     }"

section \<open>Well-formed amounts\<close>

text \<open>
  The amounts of a form that are never losses: they are read as numbers that are not
  negative. (Capital gain or loss, Schedule C and Schedule E results and the medical
  expenses are not among them.)
\<close>

definition nonneg :: "field \<Rightarrow> bool" where
  "nonneg x = (0 \<le> toNum x)"

definition incomes_nonneg :: "form \<Rightarrow> bool" where
  "incomes_nonneg f =
     (nonneg (totalWages f) \<and> nonneg (taxableInterest f) \<and> nonneg (ordinaryDividends f) \<and>
      nonneg (taxableIra f) \<and> nonneg (taxablePensions f) \<and>
      nonneg (taxableSocialSecurity f) \<and> nonneg (otherIncome f))"

definition adjustments_nonneg :: "form \<Rightarrow> bool" where
  "adjustments_nonneg f =
     (nonneg (educatorExpenses f) \<and> nonneg (hsaDeduction f) \<and>
      nonneg (selfEmployedSEPSimple f) \<and> nonneg (selfEmployedHealthInsurance f) \<and>
      nonneg (penaltyEarlyWithdrawal f) \<and> nonneg (alimonyPaid f) \<and>
      nonneg (iraDeduction f) \<and> nonneg (studentLoanInterest f) \<and>
      nonneg (tipIncome f) \<and> nonneg (overtimeIncome f) \<and> nonneg (autoLoanInterest f))"

definition itemized_nonneg :: "form \<Rightarrow> bool" where
  "itemized_nonneg f =
     (nonneg (stateLocalTaxes f) \<and> nonneg (realEstateTaxes f) \<and>
      nonneg (mortgageInterest f) \<and> nonneg (charityCash f) \<and> nonneg (charityNonCash f) \<and>
      nonneg (casualtyLosses f) \<and> nonneg (otherItemized f))"

definition credits_nonneg :: "form \<Rightarrow> bool" where
  "credits_nonneg f =
     (nonneg (childTaxCredit f) \<and> nonneg (creditOtherDependents f) \<and>
      nonneg (educationCredits f) \<and> nonneg (retirementSaversCredit f) \<and>
      nonneg (childCareCredit f) \<and> nonneg (earnedIncomeCredit f) \<and>
      nonneg (otherCredits f))"

definition payments_nonneg :: "form \<Rightarrow> bool" where
  "payments_nonneg f =
     (nonneg (totalWithholding f) \<and> nonneg (estimatedTaxPayments f) \<and>
      nonneg (amountAppliedFromPriorYear f))"

text \<open>
  A filing status string that no table has as an own key and that is not an inherited
  property name either: the lookups read \<open>undefined\<close> for it.
\<close>

definition unknown_status :: "string \<Rightarrow> bool" where
  "unknown_status fs =
     (fs \<notin> {''single'', ''married'', ''marriedSeparate'', ''head'', ''widow''} \<and>
      \<not> inherited_key fs)"

section \<open>Example inputs\<close>

text \<open>The form \<open>{}\<close>: every field absent.\<close>

definition emptyForm :: form where
  "emptyForm =
     \<lparr>filingStatus = None, totalWages = Undefined, taxableInterest = Undefined,
      ordinaryDividends = Undefined, qualifiedDividends = Undefined, taxableIra = Undefined,
      taxablePensions = Undefined, taxableSocialSecurity = Undefined,
      capitalGainLoss = Undefined, otherIncome = Undefined,
      hasScheduleC = False, scheduleC = None, hasScheduleE = False, scheduleE = None,
      hasScheduleD = False, scheduleD = None,
      educatorExpenses = Undefined, hsaDeduction = Undefined,
      selfEmploymentTaxDeduction = Undefined, selfEmployedSEPSimple = Undefined,
      selfEmployedHealthInsurance = Undefined, penaltyEarlyWithdrawal = Undefined,
      alimonyPaid = Undefined, iraDeduction = Undefined, studentLoanInterest = Undefined,
      useObbba2025 = None, tipIncome = Undefined, overtimeIncome = Undefined,
      autoLoanInterest = Undefined, birthDate = NoBirthDate,
      stateLocalTaxes = Undefined, realEstateTaxes = Undefined, medicalExpenses = Undefined,
      mortgageInterest = Undefined, charityCash = Undefined, charityNonCash = Undefined,
      casualtyLosses = Undefined, otherItemized = Undefined, deductionType = None,
      scheduleK1 = None, partnershipIncome = Undefined, sCorpIncome = Undefined,
      dependents = None, childTaxCredit = Undefined, creditOtherDependents = Undefined,
      educationCredits = Undefined, retirementSaversCredit = Undefined,
      childCareCredit = Undefined, earnedIncomeCredit = Undefined, otherCredits = Undefined,
      totalWithholding = Undefined, estimatedTaxPayments = Undefined,
      amountAppliedFromPriorYear = Undefined\<rparr>"

text \<open>
  Environments for the examples. A time zone with a fixed offset from UTC (in minutes)
  reads a time value as the civil date of the day it falls on; the day number, counted from
  1 January 1970, is turned into a date of the Gregorian calendar.
\<close>

definition civil_from_days :: "int \<Rightarrow> date" where
  "civil_from_days days =
     (let z = days + 719468;
          era = z div 146097;
          doe = z - era * 146097;
          yoe = (doe - doe div 1460 + doe div 36524 - doe div 146096) div 365;
          doy = doe - (365 * yoe + yoe div 4 - yoe div 100);
          mp = (5 * doy + 2) div 153;
          d = doy - (153 * mp + 2) div 5 + 1;
          m = (if mp < 10 then mp + 3 else mp - 9);
          y = yoe + era * 400 + (if m \<le> 2 then 1 else 0)
      in \<lparr>fullYear = y, month = m - 1, day = d\<rparr>)"

definition zoneWithOffset :: "int \<Rightarrow> int \<Rightarrow> date" where
  "zoneWithOffset minutes t = civil_from_days ((t + minutes * 60000) div 86400000)"

text \<open>
  The time values of the date-only strings that the examples use, midnight UTC of the day
  (no other string occurs in them).
\<close>

definition exampleParse :: "string \<Rightarrow> int option" where
  "exampleParse s =
     (if s = ''1960-11-04'' then Some (- 289008000000)
      else if s = ''1950-01-01'' then Some (- 631152000000)
      else None)"

text \<open>
  The clock at 2025-11-03T20:00:00Z, read in UTC and read eight hours behind UTC (Pacific
  Standard Time), and the clock one day later, read in UTC.
\<close>

definition exampleEnv :: environment where
  "exampleEnv = \<lparr>now = 1762200000000, zone = zoneWithOffset 0, parse = exampleParse\<rparr>"



section \<open>Properties of the table lookups\<close>

lemma inherited_key_iff: "inherited_key k \<longleftrightarrow> map_of Object_prototype k \<noteq> None"
  by (simp add: inherited_key_def map_of_eq_None_iff)

section \<open>Properties of calculateBracketTax\<close>

text \<open>
  C5: calculateBracketTax(60000, schedule) with the 2025 single-filer bracket schedule
  returns exactly 8114.00.
\<close>

theorem C5_bracket_tax_60000_single:
  "calculateBracketTax 60000 TAX_BRACKETS_2025_single = 8114"
  by (simp add: calculateBracketTax_def TAX_BRACKETS_2025_single_def)

lemma bracket_loop_add: "bracket_loop x bs (a + b) = a + bracket_loop x bs b"
  by (induction x bs b arbitrary: a rule: bracket_loop.induct) (simp_all add: add.assoc)

lemma bracket_loop_acc: "bracket_loop x bs a = a + bracket_loop x bs 0"
  using bracket_loop_add[of x bs a 0] by simp

lemma bracket_loop_step:
  "nl < x \<Longrightarrow> bracket_loop x ((l, r) # (nl, nr) # rest) 0 =
     (nl - l) * r + bracket_loop x ((nl, nr) # rest) 0"
  using bracket_loop_acc[of x "(nl, nr) # rest" "(nl - l) * r"] by simp

lemma bracket_loop_stop:
  "\<not> nl < x \<Longrightarrow> bracket_loop x ((l, r) # (nl, nr) # rest) 0 = (x - l) * r"
  by simp

lemma bracket_loop_first:
  "sorted_wrt (<) (map fst ((l, r) # rest)) \<Longrightarrow> x \<le> l \<Longrightarrow>
     bracket_loop x ((l, r) # rest) 0 = (x - l) * r"
  by (cases rest) auto

text \<open>
  The running tax is convex in the income: from any income \<open>x\<close> on it grows at least at
  the rate \<open>\<rho>\<close> of the bracket that \<open>x\<close> falls in, and up to \<open>x\<close> it grew at most at
  that rate.
\<close>

lemma bracket_loop_slope:
  assumes "sorted_wrt (<) (map fst ((l, r) # rest))" "sorted_wrt (\<le>) (map snd ((l, r) # rest))"
    and "l \<le> x" "x \<le> y"
  shows "\<exists>\<rho>. r \<le> \<rho> \<and> bracket_loop x ((l, r) # rest) 0 \<le> \<rho> * (x - l) \<and>
           \<rho> * (y - x) \<le> bracket_loop y ((l, r) # rest) 0 - bracket_loop x ((l, r) # rest) 0"
  using assms
proof (induction rest arbitrary: l r x)
  case Nil
  then show ?case by (intro exI[of _ r]) (simp add: algebra_simps)
next
  case (Cons b rest)
  obtain nl nr where b: "b = (nl, nr)" by (cases b)
  have lt: "l < nl" and rr: "r \<le> nr"
    and s1: "sorted_wrt (<) (map fst ((nl, nr) # rest))"
    and s2: "sorted_wrt (\<le>) (map snd ((nl, nr) # rest))"
    using Cons.prems b by auto
  show ?case
  proof (cases "nl < x")
    case True
    then have ny: "nl < y" using Cons.prems by simp
    from Cons.IH[OF s1 s2 _ \<open>x \<le> y\<close>] True
    obtain \<rho> where \<rho>: "nr \<le> \<rho>" "bracket_loop x ((nl, nr) # rest) 0 \<le> \<rho> * (x - nl)"
      "\<rho> * (y - x) \<le> bracket_loop y ((nl, nr) # rest) 0 - bracket_loop x ((nl, nr) # rest) 0"
      by force
    have "(nl - l) * r \<le> (nl - l) * \<rho>"
      using lt rr \<rho>(1) by (intro mult_left_mono) auto
    then have "(nl - l) * r + bracket_loop x ((nl, nr) # rest) 0 \<le> \<rho> * (x - l)"
      using \<rho>(2) by (simp add: algebra_simps)
    then show ?thesis
      using \<rho> rr True ny unfolding b
      by (intro exI[of _ \<rho>]) (simp add: bracket_loop_step del: bracket_loop.simps)
  next
    case False
    then have gx: "bracket_loop x ((l, r) # b # rest) 0 = (x - l) * r"
      unfolding b by simp
    show ?thesis
    proof (cases "nl < y")
      case True
      from Cons.IH[OF s1 s2, of nl] True
      obtain \<rho> where \<rho>: "nr \<le> \<rho>"
        "\<rho> * (y - nl) \<le> bracket_loop y ((nl, nr) # rest) 0 - bracket_loop nl ((nl, nr) # rest) 0"
        by force
      have z: "bracket_loop nl ((nl, nr) # rest) 0 = 0"
        using bracket_loop_first[OF s1, of nl] by simp
      have "r * (y - nl) \<le> \<rho> * (y - nl)"
        using True rr \<rho>(1) by (intro mult_right_mono) auto
      then have "r * (y - nl) \<le> bracket_loop y ((nl, nr) # rest) 0"
        using \<rho>(2) z by simp
      then show ?thesis
        using gx bracket_loop_step[OF True, of l r nr rest] unfolding b
        by (intro exI[of _ r]) (simp add: algebra_simps del: bracket_loop.simps)
    next
      case False
      then show ?thesis
        using gx unfolding b by (intro exI[of _ r]) (simp add: algebra_simps)
    qed
  qed
qed

lemma calculateBracketTax_nonneg: "0 \<le> calculateBracketTax x bs"
  by (simp add: calculateBracketTax_def)

lemma calculateBracketTax_mono:
  assumes "valid_schedule bs" "x \<le> y"
  shows "calculateBracketTax x bs \<le> calculateBracketTax y bs"
proof (cases "x \<le> 0")
  case True
  then show ?thesis
    using calculateBracketTax_nonneg[of y bs] by (simp add: calculateBracketTax_def)
next
  case False
  obtain r rest where bs: "bs = (0, r) # rest"
    using assms(1) by (auto simp: valid_schedule_def split: list.splits)
  have s: "sorted_wrt (<) (map fst ((0, r) # rest))" "sorted_wrt (\<le>) (map snd ((0, r) # rest))"
    using assms(1) bs by (auto simp: valid_schedule_def)
  from False have x0: "0 \<le> x" "0 < x" by auto
  from bracket_loop_slope[OF s x0(1) assms(2)]
  obtain \<rho> where \<rho>: "bracket_loop x bs 0 \<le> \<rho> * (x - 0)"
    "\<rho> * (y - x) \<le> bracket_loop y bs 0 - bracket_loop x bs 0"
    unfolding bs by blast
  show ?thesis
  proof (cases "bracket_loop x bs 0 \<le> 0")
    case True
    then show ?thesis using False assms(2) by (simp add: calculateBracketTax_def)
  next
    case False
    then have "0 < \<rho> * x" using \<rho>(1) by simp
    then have "0 < \<rho>" using x0(2) by (simp add: zero_less_mult_iff)
    then have "0 \<le> \<rho> * (y - x)" using assms(2) by simp
    then show ?thesis
      using \<rho>(2) \<open>\<not> x \<le> 0\<close> assms(2) by (simp add: calculateBracketTax_def)
  qed
qed

lemma bracket_loop_continuous:
  "sorted_wrt (<) (map fst bs) \<Longrightarrow> continuous_on UNIV (\<lambda>x. bracket_loop x bs 0)"
proof (induction bs)
  case Nil
  then show ?case by simp
next
  case (Cons a bs)
  obtain l r where a: "a = (l, r)" by (cases a)
  show ?case
  proof (cases bs)
    case Nil
    then show ?thesis unfolding a by (auto intro!: continuous_intros)
  next
    case (Cons b rest)
    obtain nl nr where b: "b = (nl, nr)" by (cases b)
    have s1: "sorted_wrt (<) (map fst ((nl, nr) # rest))"
      using Cons.prems Cons b by simp
    have c: "continuous_on UNIV (\<lambda>x. bracket_loop x ((nl, nr) # rest) 0)"
      using Cons.IH Cons.prems Cons b by simp
    have z: "bracket_loop nl ((nl, nr) # rest) 0 = 0"
      using bracket_loop_first[OF s1, of nl] by simp
    have U: "{nl..} \<union> {..nl} = (UNIV :: real set)" by auto
    have eq: "(\<lambda>x. bracket_loop x (a # bs) 0) =
        (\<lambda>x. if nl < x then (nl - l) * r + bracket_loop x ((nl, nr) # rest) 0 else (x - l) * r)"
      unfolding a Cons b
      by (auto simp: fun_eq_iff bracket_loop_step bracket_loop_stop simp del: bracket_loop.simps)
    have "continuous_on ({nl..} \<union> {..nl})
            (\<lambda>x. if nl < x then (nl - l) * r + bracket_loop x ((nl, nr) # rest) 0
                  else (x - l) * r)"
    proof (rule continuous_on_If)
      show "continuous_on {nl..} (\<lambda>x. (nl - l) * r + bracket_loop x ((nl, nr) # rest) 0)"
        by (intro continuous_intros continuous_on_subset[OF c]) simp
      show "continuous_on {..nl} (\<lambda>x. (x - l) * r)"
        by (intro continuous_intros)
      show "\<And>x. x \<in> {nl..} \<Longrightarrow> \<not> nl < x \<Longrightarrow>
              (nl - l) * r + bracket_loop x ((nl, nr) # rest) 0 = (x - l) * r"
        using z by (simp add: antisym_conv)
    qed auto
    then show ?thesis unfolding U eq .
  qed
qed

lemma calculateBracketTax_continuous:
  assumes "valid_schedule bs"
  shows "continuous_on UNIV (\<lambda>x. calculateBracketTax x bs)"
proof -
  obtain r rest where bs: "bs = (0, r) # rest"
    using assms by (auto simp: valid_schedule_def split: list.splits)
  have s: "sorted_wrt (<) (map fst bs)" using assms by (simp add: valid_schedule_def)
  have z: "bracket_loop 0 bs 0 = 0"
    using bracket_loop_first[of 0 r rest 0] s unfolding bs by simp
  have U: "{..0} \<union> {0..} = (UNIV :: real set)" by auto
  have eq: "(\<lambda>x. calculateBracketTax x bs) =
      (\<lambda>x. if x \<le> 0 then 0 else max 0 (bracket_loop x bs 0))"
    by (simp add: fun_eq_iff calculateBracketTax_def)
  have "continuous_on ({..0} \<union> {0..}) (\<lambda>x. if x \<le> 0 then 0 else max 0 (bracket_loop x bs 0))"
  proof (rule continuous_on_If)
    show "continuous_on {0..} (\<lambda>x. max 0 (bracket_loop x bs 0))"
      by (intro continuous_intros continuous_on_subset[OF bracket_loop_continuous[OF s]]) simp
    show "\<And>x. x \<in> {0..} \<Longrightarrow> x \<le> 0 \<Longrightarrow> 0 = max 0 (bracket_loop x bs 0)"
      using z by (simp add: antisym_conv)
  qed auto
  then show ?thesis unfolding U eq .
qed

lemma valid_schedule_single: "valid_schedule TAX_BRACKETS_2025_single"
  by (simp add: valid_schedule_def TAX_BRACKETS_2025_single_def)

text \<open>
  C6: for every bracket schedule with strictly increasing thresholds, first threshold 0 and
  non-decreasing rates, calculateBracketTax is monotonically non-decreasing as a function of
  the income (over all incomes, the non-positive ones included), and it is continuous at
  every bracket boundary: the function has no jump at any threshold of the schedule.
\<close>

theorem C6_bracket_tax_monotone_continuous:
  assumes "valid_schedule bs"
  shows "mono (\<lambda>income. calculateBracketTax income bs) \<and>
         (\<forall>(threshold, rate) \<in> set bs.
            isCont (\<lambda>income. calculateBracketTax income bs) threshold)"
proof
  show "mono (\<lambda>income. calculateBracketTax income bs)"
    using calculateBracketTax_mono[OF assms] by (simp add: mono_def)
  have "\<forall>x. isCont (\<lambda>income. calculateBracketTax income bs) x"
    using calculateBracketTax_continuous[OF assms]
    by (simp add: continuous_on_eq_continuous_at)
  then show "\<forall>(threshold, rate) \<in> set bs.
      isCont (\<lambda>income. calculateBracketTax income bs) threshold"
    by auto
qed

theorem C6_witness:
  "valid_schedule TAX_BRACKETS_2025_single \<and>
   mono (\<lambda>income. calculateBracketTax income TAX_BRACKETS_2025_single) \<and>
   isCont (\<lambda>income. calculateBracketTax income TAX_BRACKETS_2025_single) 48475"
proof -
  have m: "(48475, 0.22) \<in> set TAX_BRACKETS_2025_single"
    by (simp add: TAX_BRACKETS_2025_single_def)
  from C6_bracket_tax_monotone_continuous[OF valid_schedule_single] m
  show ?thesis using valid_schedule_single by blast
qed

section \<open>Properties of calculateCapitalGainsTax\<close>

text \<open>
  C4: calculateCapitalGainsTax(ordinaryTaxableIncome, capitalGains, filingStatus) returns 0
  for every input with capitalGains <= 0; its result is never negative (the call returns a
  number for every filing status that is not the name of an inherited property, and where
  it raises instead, the status is such a name); and for ordinaryTaxableIncome = 40000,
  capitalGains = 20000 and filing status single it returns exactly 1747.50.
\<close>

theorem C4_capital_gains_tax:
  "(capitalGains \<le> 0 \<longrightarrow>
      calculateCapitalGainsTax ordinaryTaxableIncome capitalGains fs = Inr 0) \<and>
   (case calculateCapitalGainsTax ordinaryTaxableIncome capitalGains fs of
      Inr result \<Rightarrow> 0 \<le> result
    | Inl e \<Rightarrow> inherited_key fs) \<and>
   calculateCapitalGainsTax 40000 20000 ''single'' = Inr 1747.50"
proof (intro conjI)
  show "capitalGains \<le> 0 \<longrightarrow>
      calculateCapitalGainsTax ordinaryTaxableIncome capitalGains fs = Inr 0"
    by (simp add: calculateCapitalGainsTax_def)
  show "case calculateCapitalGainsTax ordinaryTaxableIncome capitalGains fs of
      Inr result \<Rightarrow> 0 \<le> result
    | Inl e \<Rightarrow> inherited_key fs"
    by (auto simp: calculateCapitalGainsTax_def array_or_def get_prop_def inherited_key_iff
          Let_def
        split: option.splits lookup.splits bracket_table.splits)
  show "calculateCapitalGainsTax 40000 20000 ''single'' = Inr 1747.50"
    by (simp add: calculateCapitalGainsTax_def get_prop_def CAPITAL_GAINS_BRACKETS_2025_def
        CAPITAL_GAINS_BRACKETS_2025_single_def array_or_def)
qed

theorem C4_witness:
  "(-100 :: real) \<le> 0 \<and> calculateCapitalGainsTax 50000 (-100) ''married'' = Inr 0"
  using C4_capital_gains_tax[of "-100" 50000 "''married''"] by simp

section \<open>Properties of calculateSelfEmploymentTax\<close>

text \<open>
  C7: calculateSelfEmploymentTax(netSEIncome, wages, filingStatus) returns
  {tax: 0, deduction: 0} for every netSEIncome <= 0, and for every input the returned
  deduction is exactly half of the returned tax (both are NaN when the filing status names
  an inherited property and netSEIncome is positive).
\<close>

theorem C7_self_employment_tax:
  "(netSEIncome \<le> 0 \<longrightarrow>
      calculateSelfEmploymentTax netSEIncome wages fs = \<lparr>tax = Some 0, deduction = Some 0\<rparr>) \<and>
   se_result.deduction (calculateSelfEmploymentTax netSEIncome wages fs) =
     map_option (\<lambda>t. t / 2) (tax (calculateSelfEmploymentTax netSEIncome wages fs))"
  by (simp add: calculateSelfEmploymentTax_def Let_def option.map_comp comp_def)

theorem C7_witness:
  "(-5 :: real) \<le> 0 \<and>
   calculateSelfEmploymentTax (-5) 1000 ''head'' = \<lparr>tax = Some 0, deduction = Some 0\<rparr> \<and>
   tax (calculateSelfEmploymentTax 100000 0 ''single'') = Some 14129.55 \<and>
   se_result.deduction (calculateSelfEmploymentTax 100000 0 ''single'') = Some 7064.775"
proof -
  have t: "tax (calculateSelfEmploymentTax 100000 0 ''single'') = Some 14129.55"
    by (simp add: calculateSelfEmploymentTax_def Let_def number_or_def get_prop_def
        se_thresholds_def)
  show ?thesis
    using C7_self_employment_tax[of "-5" 1000 "''head''"]
      C7_self_employment_tax[of 100000 0 "''single''"] t
    by simp
qed

section \<open>Properties of calculateNIIT\<close>

lemma number_or_numeric:
  "\<not> inherited_key k \<Longrightarrow> \<exists>v. number_or (get_prop table k) d = Some v"
  by (auto simp: get_prop_def number_or_def inherited_key_iff split: option.splits)

text \<open>
  What the function computes for a filing status that is not an inherited property name: the
  formula of the claim, which is not negative as long as the net investment income is not.
\<close>

lemma calculateNIIT_formula:
  assumes "\<not> inherited_key fs"
  shows "\<exists>threshold. number_or (get_prop niit_thresholds fs) 200000 = Some threshold \<and>
           calculateNIIT a nii fs = Some (min (max 0 (a - threshold)) nii * 0.038)"
  using number_or_numeric[OF assms, of niit_thresholds 200000]
  by (auto simp: calculateNIIT_def)

lemma calculateNIIT_nonneg:
  assumes "\<not> inherited_key fs" "0 \<le> nii"
  shows "\<exists>t. calculateNIIT a nii fs = Some t \<and> 0 \<le> t"
  using calculateNIIT_formula[OF assms(1), of a nii] assms(2) by auto

text \<open>
  C3: calculateNIIT returns 3.8% of min(max(0, agi - threshold), netInvestmentIncome), and
  the result is always greater than or equal to 0. The source floors the excess of the AGI
  over the threshold at 0, but not the net investment income: at agi = 300000,
  netInvestmentIncome = -20000 and filing status single the function returns -760.
\<close>

theorem C3_niit_negative_at_failing_input:
  "calculateNIIT 300000 (-20000) ''single'' = Some (-760)"
  by (simp add: calculateNIIT_def get_prop_def niit_thresholds_def number_or_def)

section \<open>Properties of calculateTotalTax\<close>

lemmas pipeline_defs =
  filingStatus_of_def scheduleC_of_def scheduleE_of_def capitalAmounts_def netShortTerm_of_def
  netLongTerm_of_def netCapital_of_def capLossLimit_of_def cappedCapitalForAGI_of_def
  totalIncome_of_def phaseOutStart_def phaseOutEnd_def
  getPhaseOutPct_def tentativeAdjustments_of_def magiForPhaseOut_of_def phaseOutPct_of_def
  tipsDeduction_of_def overtimeDeduction_of_def autoLoanDeduction_of_def seniorBonus_of_def
  totalAdjustments_of_def actualSalt_of_def medicalDeductible_of_def itemizedTotal_of_def
  deduction_of_def qbiEligible_of_def qbiDeduction_of_def totalQualifiedIncome_of_def
  investmentIncome_of_def dependents_of_def estimatedChildCredit_of_def
  estimatedOtherDependentsCredit_of_def totalCredits_of_def nonRefundableCredits_of_def
  refundableCredits_of_def totalPayments_of_def getPolicyFlags_def getSaltCap_def toNum_def
  parseFloat_or_def

lemmas stage_defs = pipeline_defs newDate_def calculateAge_def ageAtLeast65_def

lemmas table_defs =
  get_prop_def number_or_def array_or_def TAX_BRACKETS_2025_def TAX_BRACKETS_2025_single_def
  STANDARD_DEDUCTIONS_2025_def STANDARD_DEDUCTIONS_2025_single_def
  CAPITAL_GAINS_BRACKETS_2025_def CAPITAL_GAINS_BRACKETS_2025_single_def se_thresholds_def
  niit_thresholds_def Object_prototype_def

lemmas component_defs =
  calculateBracketTax_def calculateCapitalGainsTax_def calculateSelfEmploymentTax_def
  calculateNIIT_def bracketTaxOn_def returned_def

lemma array_or_array:
  "\<not> inherited_key k \<Longrightarrow> \<exists>bs. array_or (get_prop table k) d = Array bs"
  by (auto simp: get_prop_def array_or_def inherited_key_iff split: option.splits)

lemma standardDeduction_pos:
  "number_or (get_prop STANDARD_DEDUCTIONS_2025 k) STANDARD_DEDUCTIONS_2025_single = Some sd
   \<Longrightarrow> 0 < sd"
  by (auto simp: get_prop_def number_or_def STANDARD_DEDUCTIONS_2025_def
      STANDARD_DEDUCTIONS_2025_single_def split: option.splits if_splits)

lemma selfEmploymentTax_numeric:
  assumes "\<not> inherited_key fs"
  shows "\<exists>t. 0 \<le> t \<and>
    calculateSelfEmploymentTax n w fs = \<lparr>tax = Some t, deduction = Some (t * 0.5)\<rparr>"
proof (cases "n \<le> 0")
  case True
  then show ?thesis by (intro exI[of _ 0]) (simp add: calculateSelfEmploymentTax_def)
next
  case False
  obtain thr where thr: "number_or (get_prop se_thresholds fs) 200000 = Some thr"
    using number_or_numeric[OF assms] by blast
  have "0 \<le> min (n * 0.9235) (max 0 (176100 - min 176100 w)) * 0.124 + n * 0.9235 * 0.029 +
          max 0 (n * 0.9235 - max 0 (thr - w)) * 0.009"
    using False by (intro add_nonneg_nonneg mult_nonneg_nonneg) auto
  then show ?thesis
    using False thr by (simp add: calculateSelfEmploymentTax_def Let_def)
qed

lemma capitalGainsTax_numeric:
  assumes "\<not> inherited_key fs"
  shows "\<exists>c. 0 \<le> c \<and> calculateCapitalGainsTax x g fs = Inr c"
  using array_or_array[OF assms, of CAPITAL_GAINS_BRACKETS_2025 CAPITAL_GAINS_BRACKETS_2025_single]
  by (auto simp: calculateCapitalGainsTax_def Let_def)

lemma bracketTaxOn_numeric:
  assumes "\<not> inherited_key fs"
  shows "\<exists>c. 0 \<le> c \<and>
    returned (bracketTaxOn x (array_or (get_prop TAX_BRACKETS_2025 fs) TAX_BRACKETS_2025_single))
      = Some c"
  using array_or_array[OF assms, of TAX_BRACKETS_2025 TAX_BRACKETS_2025_single]
  by (auto simp: bracketTaxOn_def returned_def calculateBracketTax_nonneg)

text \<open>
  The Tax Result for a filing status that is not an inherited property name, field by
  field, in terms of the stages: \<open>t\<close> is the self-employment tax, \<open>sd\<close> the standard
  deduction, \<open>rt\<close>, \<open>cg\<close> and \<open>nv\<close> the bracket tax, the capital gains tax and the NIIT.
\<close>

lemma calculateTotalTax_numeric:
  assumes ni: "\<not> inherited_key (filingStatus_of f)"
  obtains t sd rt cg nv where
    "0 \<le> t"
    "calculateSelfEmploymentTax (scheduleC_of f) (toNum (totalWages f)) (filingStatus_of f) =
       \<lparr>tax = Some t, deduction = Some (t * 0.5)\<rparr>"
    "number_or (get_prop STANDARD_DEDUCTIONS_2025 (filingStatus_of f))
       STANDARD_DEDUCTIONS_2025_single = Some sd"
    "0 < sd" "0 \<le> rt" "0 \<le> cg"
    "calculateNIIT (totalIncome_of f - totalAdjustments_of env f (t * 0.5))
       (investmentIncome_of f) (filingStatus_of f) = Some nv"
    "calculateTotalTax env f = Some
      \<lparr>totalIncome = totalIncome_of f,
       totalAdjustments = totalAdjustments_of env f (t * 0.5),
       agi = totalIncome_of f - totalAdjustments_of env f (t * 0.5),
       deduction = deduction_of f (totalIncome_of f - totalAdjustments_of env f (t * 0.5)) sd,
       taxableIncome =
         max 0 (totalIncome_of f - totalAdjustments_of env f (t * 0.5)
                - deduction_of f (totalIncome_of f - totalAdjustments_of env f (t * 0.5)) sd
                - qbiDeduction_of f (totalIncome_of f - totalAdjustments_of env f (t * 0.5))
                    (deduction_of f
                       (totalIncome_of f - totalAdjustments_of env f (t * 0.5)) sd)),
       regularTax = rt, capitalGainsTax = cg, seTax = t,
       totalTaxBeforeCredits = rt + cg + t + nv,
       totalCredits = totalCredits_of f,
       finalTax = max 0 (rt + cg + t + nv - nonRefundableCredits_of f) - refundableCredits_of f,
       totalPayments = totalPayments_of f,
       refundOrOwed = totalPayments_of f -
         (max 0 (rt + cg + t + nv - nonRefundableCredits_of f) - refundableCredits_of f),
       isRefund = (0 \<le> totalPayments_of f -
         (max 0 (rt + cg + t + nv - nonRefundableCredits_of f) - refundableCredits_of f))\<rparr>"
proof -
  let ?fs = "filingStatus_of f"
  obtain t where t: "0 \<le> t"
    "calculateSelfEmploymentTax (scheduleC_of f) (toNum (totalWages f)) ?fs =
       \<lparr>tax = Some t, deduction = Some (t * 0.5)\<rparr>"
    using selfEmploymentTax_numeric[OF ni] by blast
  obtain sd where sd:
    "number_or (get_prop STANDARD_DEDUCTIONS_2025 ?fs) STANDARD_DEDUCTIONS_2025_single = Some sd"
    using number_or_numeric[OF ni] by blast
  let ?A = "totalIncome_of f - totalAdjustments_of env f (t * 0.5)"
  let ?D = "deduction_of f ?A sd"
  let ?TI = "max 0 (?A - ?D - qbiDeduction_of f ?A ?D)"
  let ?OI = "max 0 (?TI - totalQualifiedIncome_of f)"
  obtain rt where rt: "0 \<le> rt"
    "returned (bracketTaxOn ?OI
       (array_or (get_prop TAX_BRACKETS_2025 ?fs) TAX_BRACKETS_2025_single)) = Some rt"
    using bracketTaxOn_numeric[OF ni] by blast
  obtain cg where cg: "0 \<le> cg"
    "returned (calculateCapitalGainsTax ?OI (totalQualifiedIncome_of f) ?fs) = Some cg"
    using capitalGainsTax_numeric[OF ni, of ?OI "totalQualifiedIncome_of f"]
    by (auto simp: returned_def)
  obtain nv where nv: "calculateNIIT ?A (investmentIncome_of f) ?fs = Some nv"
    using calculateNIIT_formula[OF ni] by blast
  show ?thesis
  proof (rule that[OF t(1) t(2) sd standardDeduction_pos[OF sd] rt(1) cg(1) nv])
    show "calculateTotalTax env f = Some
      \<lparr>totalIncome = totalIncome_of f,
       totalAdjustments = totalAdjustments_of env f (t * 0.5),
       agi = ?A, deduction = ?D, taxableIncome = ?TI,
       regularTax = rt, capitalGainsTax = cg, seTax = t,
       totalTaxBeforeCredits = rt + cg + t + nv,
       totalCredits = totalCredits_of f,
       finalTax = max 0 (rt + cg + t + nv - nonRefundableCredits_of f) - refundableCredits_of f,
       totalPayments = totalPayments_of f,
       refundOrOwed = totalPayments_of f -
         (max 0 (rt + cg + t + nv - nonRefundableCredits_of f) - refundableCredits_of f),
       isRefund = (0 \<le> totalPayments_of f -
         (max 0 (rt + cg + t + nv - nonRefundableCredits_of f) - refundableCredits_of f))\<rparr>"
      by (simp only: calculateTotalTax_def Let_def t(2) sd rt(2) cg(2) nv
          se_result.select_convs Option.bind.bind_lunit)
  qed
qed

text \<open>
  The orchestrator yields no Tax Result of numbers exactly when the filing status names an
  inherited property.
\<close>

lemma standardDeduction_inherited:
  "inherited_key k \<Longrightarrow>
   number_or (get_prop STANDARD_DEDUCTIONS_2025 k) STANDARD_DEDUCTIONS_2025_single = None"
  by (auto simp: inherited_key_def Object_prototype_def get_prop_def number_or_def
      STANDARD_DEDUCTIONS_2025_def)

lemma calculateTotalTax_None_iff:
  "calculateTotalTax env f = None \<longleftrightarrow> inherited_key (filingStatus_of f)"
proof
  assume "calculateTotalTax env f = None"
  then show "inherited_key (filingStatus_of f)"
    using calculateTotalTax_numeric[of f env] by (metis option.distinct(1))
next
  assume i: "inherited_key (filingStatus_of f)"
  show "calculateTotalTax env f = None"
    by (cases "se_result.deduction (calculateSelfEmploymentTax (scheduleC_of f)
          (toNum (totalWages f)) (filingStatus_of f))")
       (simp_all only: calculateTotalTax_def Let_def standardDeduction_inherited[OF i]
          Option.bind.bind_lzero Option.bind.bind_lunit)
qed







lemma getPhaseOutPct_range: "0 \<le> getPhaseOutPct fs m \<and> getPhaseOutPct fs m \<le> 1"
  by (auto simp: getPhaseOutPct_def phaseOutStart_def phaseOutEnd_def divide_simps)




lemma parseFloat_or_nonneg: "nonneg x \<Longrightarrow> 0 \<le> d \<Longrightarrow> 0 \<le> parseFloat_or x d"
  by (auto simp: nonneg_def toNum_def parseFloat_or_def split: field.splits if_splits)

lemma saltCap_pos: "0 < getSaltCap fs f"
  by (simp add: getSaltCap_def)

lemma totalAdjustments_nonneg:
  assumes "adjustments_nonneg f" "0 \<le> sed"
  shows "0 \<le> totalAdjustments_of env f sed"
proof -
  have p: "0 \<le> phaseOutPct_of f"
    using getPhaseOutPct_range[of "filingStatus_of f" "magiForPhaseOut_of f"]
    by (simp add: phaseOutPct_of_def)
  have "0 \<le> tipsDeduction_of f" "0 \<le> overtimeDeduction_of f" "0 \<le> autoLoanDeduction_of f"
    "0 \<le> seniorBonus_of env f"
    using assms(1) p
    by (auto simp: tipsDeduction_of_def overtimeDeduction_of_def autoLoanDeduction_of_def
        seniorBonus_of_def adjustments_nonneg_def nonneg_def)
  moreover have "0 \<le> max (toNum (selfEmploymentTaxDeduction f)) sed"
    using assms(2) by simp
  ultimately show ?thesis
    using assms(1) unfolding totalAdjustments_of_def adjustments_nonneg_def nonneg_def
    by linarith
qed

lemma deduction_nonneg:
  assumes "itemized_nonneg f" "0 < sd"
  shows "0 \<le> deduction_of f a sd"
proof -
  have "0 \<le> medicalDeductible_of f a" by (simp add: medicalDeductible_of_def)
  moreover have "0 \<le> actualSalt_of f"
    using assms(1) saltCap_pos[of "filingStatus_of f" f]
    by (simp add: actualSalt_of_def itemized_nonneg_def nonneg_def)
  ultimately have "0 \<le> itemizedTotal_of f a"
    using assms(1) unfolding itemizedTotal_of_def itemized_nonneg_def nonneg_def by linarith
  then show ?thesis using assms(2) by (simp add: deduction_of_def)
qed

lemma totalCredits_nonneg:
  assumes "credits_nonneg f"
  shows "0 \<le> totalCredits_of f"
proof -
  have "0 \<le> parseFloat_or (childTaxCredit f) (estimatedChildCredit_of f)"
    "0 \<le> parseFloat_or (creditOtherDependents f) (estimatedOtherDependentsCredit_of f)"
    using assms
    by (auto intro!: parseFloat_or_nonneg
        simp: credits_nonneg_def estimatedChildCredit_of_def estimatedOtherDependentsCredit_of_def)
  then show ?thesis
    using assms unfolding totalCredits_of_def credits_nonneg_def nonneg_def by linarith
qed

lemma totalIncome_nonneg:
  assumes "incomes_nonneg f" "0 \<le> scheduleC_of f" "0 \<le> scheduleE_of f" "0 \<le> netCapital_of f"
  shows "0 \<le> totalIncome_of f"
  using assms unfolding totalIncome_of_def incomes_nonneg_def nonneg_def cappedCapitalForAGI_of_def
  by simp

text \<open>
  C2 (as amended): in every Tax Result, taxableIncome, regularTax, capitalGainsTax and seTax
  are not negative. totalAdjustments, deduction, totalCredits and totalPayments are not
  negative when the form's amounts that feed them are not; totalTaxBeforeCredits is not
  negative when the net investment income is not; totalIncome is not negative when the
  income amounts are not and Schedule C, Schedule E and the net capital result are not
  losses. agi, like finalTax and refundOrOwed, may be negative. (A Tax Result of numbers
  exists for every filing status that is not an inherited property name.)
\<close>

theorem C2_nonnegative_fields:
  assumes "\<not> inherited_key (filingStatus_of f)"
  shows "\<exists>r. calculateTotalTax env f = Some r \<and>
     0 \<le> taxableIncome r \<and> 0 \<le> regularTax r \<and> 0 \<le> capitalGainsTax r \<and> 0 \<le> seTax r \<and>
     (adjustments_nonneg f \<longrightarrow> 0 \<le> totalAdjustments r) \<and>
     (itemized_nonneg f \<longrightarrow> 0 \<le> deduction r) \<and>
     (credits_nonneg f \<longrightarrow> 0 \<le> totalCredits r) \<and>
     (payments_nonneg f \<longrightarrow> 0 \<le> totalPayments r) \<and>
     (0 \<le> investmentIncome_of f \<longrightarrow> 0 \<le> totalTaxBeforeCredits r) \<and>
     (incomes_nonneg f \<and> 0 \<le> scheduleC_of f \<and> 0 \<le> scheduleE_of f \<and> 0 \<le> netCapital_of f
        \<longrightarrow> 0 \<le> totalIncome r)"
proof -
  from calculateTotalTax_numeric[OF assms, of env]
  obtain t sd rt cg nv r where t: "0 \<le> t" and sd: "0 < sd" and rt: "0 \<le> rt" and cg: "0 \<le> cg"
    and nv: "calculateNIIT (totalIncome_of f - totalAdjustments_of env f (t * 0.5))
       (investmentIncome_of f) (filingStatus_of f) = Some nv"
    and r: "calculateTotalTax env f = Some r"
    and f1: "totalIncome r = totalIncome_of f"
    and f2: "totalAdjustments r = totalAdjustments_of env f (t * 0.5)"
    and f3: "deduction r =
       deduction_of f (totalIncome_of f - totalAdjustments_of env f (t * 0.5)) sd"
    and f4: "0 \<le> taxableIncome r"
    and f5: "regularTax r = rt" "capitalGainsTax r = cg" "seTax r = t"
      "totalTaxBeforeCredits r = rt + cg + t + nv"
      "totalCredits r = totalCredits_of f" "totalPayments r = totalPayments_of f"
    by (metis tax_result.select_convs max.cobounded1)
  have n: "0 \<le> nv" if "0 \<le> investmentIncome_of f"
    using calculateNIIT_nonneg[OF assms that,
        of "totalIncome_of f - totalAdjustments_of env f (t * 0.5)"] nv
    by auto
  have pay: "payments_nonneg f \<Longrightarrow> 0 \<le> totalPayments_of f"
    by (simp add: payments_nonneg_def nonneg_def totalPayments_of_def)
  show ?thesis
    using r f1 f2 f3 f4 f5 t sd rt cg n pay
      totalAdjustments_nonneg[of f "t * 0.5" env] deduction_nonneg[of f sd]
      totalCredits_nonneg[of f] totalIncome_nonneg[of f]
    by (intro exI[of _ r]) auto
qed

text \<open>
  The claim as stated fails: a form whose only entry is a capital loss of 10000 has a total
  income and an AGI of -3000 (the loss, capped at 3000).
\<close>

theorem C2_counterexample:
  "map_option totalIncome
     (calculateTotalTax exampleEnv (emptyForm\<lparr>capitalGainLoss := Num (-10000)\<rparr>))
     = Some (-3000) \<and>
   map_option agi
     (calculateTotalTax exampleEnv (emptyForm\<lparr>capitalGainLoss := Num (-10000)\<rparr>))
     = Some (-3000)"
  by (simp add: calculateTotalTax_def stage_defs table_defs component_defs emptyForm_def
      exampleEnv_def Let_def)

theorem C2_witness:
  "\<not> inherited_key (filingStatus_of (emptyForm\<lparr>filingStatus := Some ''single'',
       totalWages := Num 150000, deductionType := Some ''itemized'',
       stateLocalTaxes := Num 50000, realEstateTaxes := Num 10000\<rparr>)) \<and>
   (\<exists>r. calculateTotalTax exampleEnv (emptyForm\<lparr>filingStatus := Some ''single'',
       totalWages := Num 150000, deductionType := Some ''itemized'',
       stateLocalTaxes := Num 50000, realEstateTaxes := Num 10000\<rparr>) = Some r \<and>
     0 \<le> taxableIncome r \<and> 0 \<le> regularTax r \<and> 0 \<le> capitalGainsTax r \<and> 0 \<le> seTax r \<and>
     0 \<le> totalAdjustments r \<and> 0 \<le> deduction r \<and> 0 \<le> totalCredits r \<and>
     0 \<le> totalPayments r \<and> 0 \<le> totalTaxBeforeCredits r \<and> 0 \<le> totalIncome r)"
proof -
  let ?F = "emptyForm\<lparr>filingStatus := Some ''single'',
       totalWages := Num 150000, deductionType := Some ''itemized'',
       stateLocalTaxes := Num 50000, realEstateTaxes := Num 10000\<rparr>"
  have h: "\<not> inherited_key (filingStatus_of ?F)"
    by (simp add: filingStatus_of_def emptyForm_def inherited_key_def Object_prototype_def)
  have a: "adjustments_nonneg ?F" "itemized_nonneg ?F" "credits_nonneg ?F" "payments_nonneg ?F"
    "incomes_nonneg ?F"
    by (simp_all add: adjustments_nonneg_def itemized_nonneg_def credits_nonneg_def
        payments_nonneg_def incomes_nonneg_def nonneg_def toNum_def parseFloat_or_def
        emptyForm_def)
  have b: "0 \<le> investmentIncome_of ?F" "0 \<le> scheduleC_of ?F" "0 \<le> scheduleE_of ?F"
    "0 \<le> netCapital_of ?F"
    by (simp_all add: stage_defs emptyForm_def)
  from C2_nonnegative_fields[OF h, of exampleEnv] a b h show ?thesis by blast
qed
















lemma status_capitalAmounts: "capitalAmounts (f\<lparr>filingStatus := x\<rparr>) = capitalAmounts f"
  by (simp add: capitalAmounts_def Let_def split: option.splits)

lemma status_independent:
  "scheduleC_of (f\<lparr>filingStatus := x\<rparr>) = scheduleC_of f"
  "scheduleE_of (f\<lparr>filingStatus := x\<rparr>) = scheduleE_of f"
  "netLongTerm_of (f\<lparr>filingStatus := x\<rparr>) = netLongTerm_of f"
  "netCapital_of (f\<lparr>filingStatus := x\<rparr>) = netCapital_of f"
  "tentativeAdjustments_of (f\<lparr>filingStatus := x\<rparr>) = tentativeAdjustments_of f"
  "getPolicyFlags (f\<lparr>filingStatus := x\<rparr>) = getPolicyFlags f"
  "ageAtLeast65 env (f\<lparr>filingStatus := x\<rparr>) = ageAtLeast65 env f"
  "dependents_of (f\<lparr>filingStatus := x\<rparr>) = dependents_of f"
  "refundableCredits_of (f\<lparr>filingStatus := x\<rparr>) = refundableCredits_of f"
  "totalPayments_of (f\<lparr>filingStatus := x\<rparr>) = totalPayments_of f"
  by (simp_all add: scheduleC_of_def scheduleE_of_def netLongTerm_of_def netCapital_of_def
      netShortTerm_of_def status_capitalAmounts tentativeAdjustments_of_def getPolicyFlags_def
      ageAtLeast65_def dependents_of_def refundableCredits_of_def totalPayments_of_def)

lemma status_independent2:
  "autoLoanDeduction_of (f\<lparr>filingStatus := x\<rparr>) = autoLoanDeduction_of f"
  "seniorBonus_of env (f\<lparr>filingStatus := x\<rparr>) = seniorBonus_of env f"
  "medicalDeductible_of (f\<lparr>filingStatus := x\<rparr>) a = medicalDeductible_of f a"
  "qbiEligible_of (f\<lparr>filingStatus := x\<rparr>) = qbiEligible_of f"
  "totalQualifiedIncome_of (f\<lparr>filingStatus := x\<rparr>) = totalQualifiedIncome_of f"
  "investmentIncome_of (f\<lparr>filingStatus := x\<rparr>) = investmentIncome_of f"
  "totalCredits_of (f\<lparr>filingStatus := x\<rparr>) = totalCredits_of f"
  "nonRefundableCredits_of (f\<lparr>filingStatus := x\<rparr>) = nonRefundableCredits_of f"
  by (simp_all add: autoLoanDeduction_of_def seniorBonus_of_def medicalDeductible_of_def
      qbiEligible_of_def totalQualifiedIncome_of_def investmentIncome_of_def totalCredits_of_def
      nonRefundableCredits_of_def estimatedChildCredit_of_def
      estimatedOtherDependentsCredit_of_def status_independent)

lemma status_qbiDeduction:
  "qbiDeduction_of (f\<lparr>filingStatus := x\<rparr>) a d = qbiDeduction_of f a d"
  by (simp add: qbiDeduction_of_def status_independent status_independent2)

text \<open>
  The stages that read the filing status only through the comparisons with
  'marriedSeparate' and 'married'.
\<close>

lemma status_dependent:
  assumes "filingStatus_of (f\<lparr>filingStatus := x\<rparr>) \<noteq> ''marriedSeparate''"
    and "filingStatus_of (f\<lparr>filingStatus := x\<rparr>) \<noteq> ''married''"
  shows "totalIncome_of (f\<lparr>filingStatus := x\<rparr>) =
           totalIncome_of (f\<lparr>filingStatus := Some ''single''\<rparr>)"
    and "totalAdjustments_of env (f\<lparr>filingStatus := x\<rparr>) sed =
           totalAdjustments_of env (f\<lparr>filingStatus := Some ''single''\<rparr>) sed"
    and "deduction_of (f\<lparr>filingStatus := x\<rparr>) a sd =
           deduction_of (f\<lparr>filingStatus := Some ''single''\<rparr>) a sd"
proof -
  have s: "filingStatus_of (f\<lparr>filingStatus := Some ''single''\<rparr>) = ''single''"
    by (simp add: filingStatus_of_def)
  have cap: "cappedCapitalForAGI_of (f\<lparr>filingStatus := x\<rparr>) =
      cappedCapitalForAGI_of (f\<lparr>filingStatus := Some ''single''\<rparr>)"
    using assms s by (simp add: cappedCapitalForAGI_of_def capLossLimit_of_def status_independent)
  show ti: "totalIncome_of (f\<lparr>filingStatus := x\<rparr>) =
           totalIncome_of (f\<lparr>filingStatus := Some ''single''\<rparr>)"
    by (simp add: totalIncome_of_def status_independent cap)
  have p: "phaseOutPct_of (f\<lparr>filingStatus := x\<rparr>) =
      phaseOutPct_of (f\<lparr>filingStatus := Some ''single''\<rparr>)"
    using assms s
    by (simp add: phaseOutPct_of_def magiForPhaseOut_of_def ti status_independent
        getPhaseOutPct_def phaseOutStart_def phaseOutEnd_def)
  show "totalAdjustments_of env (f\<lparr>filingStatus := x\<rparr>) sed =
           totalAdjustments_of env (f\<lparr>filingStatus := Some ''single''\<rparr>) sed"
    by (simp add: totalAdjustments_of_def tipsDeduction_of_def overtimeDeduction_of_def p
        status_independent status_independent2)
  have salt: "actualSalt_of (f\<lparr>filingStatus := x\<rparr>) =
      actualSalt_of (f\<lparr>filingStatus := Some ''single''\<rparr>)"
    using assms s by (simp add: actualSalt_of_def getSaltCap_def status_independent)
  show "deduction_of (f\<lparr>filingStatus := x\<rparr>) a sd =
           deduction_of (f\<lparr>filingStatus := Some ''single''\<rparr>) a sd"
    by (simp add: deduction_of_def itemizedTotal_of_def salt status_independent2)
qed

text \<open>
  The fallback the source intends: a status that is absent, empty, or a string that is
  neither one of the five statuses nor an inherited property name, is computed as single.
\<close>

lemma unknown_status_lookups:
  assumes "unknown_status fs"
  shows "get_prop STANDARD_DEDUCTIONS_2025 fs = Missing" "get_prop TAX_BRACKETS_2025 fs = Missing"
    "get_prop CAPITAL_GAINS_BRACKETS_2025 fs = Missing" "get_prop se_thresholds fs = Missing"
    "get_prop niit_thresholds fs = Missing"
  using assms
  by (simp_all add: unknown_status_def get_prop_def inherited_key_iff STANDARD_DEDUCTIONS_2025_def
      TAX_BRACKETS_2025_def CAPITAL_GAINS_BRACKETS_2025_def se_thresholds_def niit_thresholds_def
      split: option.splits)

lemma single_lookups:
  "get_prop STANDARD_DEDUCTIONS_2025 ''single'' = Own STANDARD_DEDUCTIONS_2025_single"
  "get_prop TAX_BRACKETS_2025 ''single'' = Own TAX_BRACKETS_2025_single"
  "get_prop CAPITAL_GAINS_BRACKETS_2025 ''single'' = Own CAPITAL_GAINS_BRACKETS_2025_single"
  "get_prop se_thresholds ''single'' = Own 200000"
  "get_prop niit_thresholds ''single'' = Own 200000"
  by (simp_all add: get_prop_def STANDARD_DEDUCTIONS_2025_def
      TAX_BRACKETS_2025_def CAPITAL_GAINS_BRACKETS_2025_def se_thresholds_def niit_thresholds_def)

lemma unknown_status_components:
  assumes "unknown_status fs"
  shows "calculateSelfEmploymentTax n w fs = calculateSelfEmploymentTax n w ''single''"
    and "calculateNIIT a i fs = calculateNIIT a i ''single''"
    and "calculateCapitalGainsTax x g fs = calculateCapitalGainsTax x g ''single''"
    and "number_or (get_prop STANDARD_DEDUCTIONS_2025 fs) STANDARD_DEDUCTIONS_2025_single =
         number_or (get_prop STANDARD_DEDUCTIONS_2025 ''single'') STANDARD_DEDUCTIONS_2025_single"
    and "array_or (get_prop TAX_BRACKETS_2025 fs) TAX_BRACKETS_2025_single =
         array_or (get_prop TAX_BRACKETS_2025 ''single'') TAX_BRACKETS_2025_single"
  by (simp_all add: calculateSelfEmploymentTax_def calculateNIIT_def calculateCapitalGainsTax_def
      unknown_status_lookups[OF assms] single_lookups number_or_def array_or_def
      STANDARD_DEDUCTIONS_2025_single_def)

lemma fallback_to_single:
  assumes "unknown_status fs" "fs \<noteq> []"
  shows "calculateTotalTax env (f\<lparr>filingStatus := Some fs\<rparr>) =
         calculateTotalTax env (f\<lparr>filingStatus := Some ''single''\<rparr>)"
proof -
  have fs: "filingStatus_of (f\<lparr>filingStatus := Some fs\<rparr>) = fs"
    "filingStatus_of (f\<lparr>filingStatus := Some ''single''\<rparr>) = ''single''"
    using assms(2) by (simp_all add: filingStatus_of_def)
  have n: "filingStatus_of (f\<lparr>filingStatus := Some fs\<rparr>) \<noteq> ''marriedSeparate''"
    "filingStatus_of (f\<lparr>filingStatus := Some fs\<rparr>) \<noteq> ''married''"
    using assms(1) fs by (auto simp: unknown_status_def)
  have w: "totalWages (f\<lparr>filingStatus := Some fs\<rparr>) = totalWages f"
    "totalWages (f\<lparr>filingStatus := Some ''single''\<rparr>) = totalWages f"
    by simp_all
  show ?thesis
    by (simp only: calculateTotalTax_def Let_def status_dependent[OF n] fs
        unknown_status_components[OF assms(1)] status_independent status_independent2
        status_qbiDeduction w)
qed

lemma absent_status_is_single:
  assumes "x = None \<or> x = Some []"
  shows "calculateTotalTax env (f\<lparr>filingStatus := x\<rparr>) =
         calculateTotalTax env (f\<lparr>filingStatus := Some ''single''\<rparr>)"
proof -
  have fs: "filingStatus_of (f\<lparr>filingStatus := x\<rparr>) = ''single''"
    "filingStatus_of (f\<lparr>filingStatus := Some ''single''\<rparr>) = ''single''"
    using assms by (auto simp: filingStatus_of_def)
  have n: "filingStatus_of (f\<lparr>filingStatus := x\<rparr>) \<noteq> ''marriedSeparate''"
    "filingStatus_of (f\<lparr>filingStatus := x\<rparr>) \<noteq> ''married''"
    using fs(1) by simp_all
  have w: "totalWages (f\<lparr>filingStatus := y\<rparr>) = totalWages f" for y by simp
  show ?thesis
    by (simp only: calculateTotalTax_def Let_def status_dependent[OF n] fs status_independent
        status_independent2 status_qbiDeduction w)
qed

text \<open>
  C10: for every Tax Form whose filingStatus is absent or is a string outside the set
  {single, married, marriedSeparate, head, widow}, calculateTotalTax returns the same Tax
  Result as the identical form with filingStatus 'single'. The lookups
  \<open>TABLE[filingStatus] || TABLE.single\<close> miss the strings that name a property inherited
  from \<open>Object.prototype\<close>: with filingStatus 'toString' every table read gives a function
  object instead of the single-filer value, and the call yields no Tax Result of numbers,
  where the same form with 'single' does.
\<close>

theorem C10_inherited_key_is_not_single:
  "calculateTotalTax exampleEnv
     (emptyForm\<lparr>filingStatus := Some ''toString'', totalWages := Num 50000\<rparr>) = None \<and>
   calculateTotalTax exampleEnv
     (emptyForm\<lparr>filingStatus := Some ''single'', totalWages := Num 50000\<rparr>) =
   Some \<lparr>totalIncome = 50000, totalAdjustments = 0, agi = 50000, deduction = 15700,
         taxableIncome = 34300, regularTax = 3877.5, capitalGainsTax = 0, seTax = 0,
         totalTaxBeforeCredits = 3877.5, totalCredits = 0, finalTax = 3877.5,
         totalPayments = 0, refundOrOwed = - 3877.5, isRefund = False\<rparr>"
  by (simp add: calculateTotalTax_def stage_defs table_defs component_defs emptyForm_def
      exampleEnv_def Let_def)

text \<open>
  The negative NIIT of C3 inside the pipeline: wages of 300000 and a Schedule E loss of
  20000 give an AGI of 280000 and a net investment income of -20000, and the NIIT that
  enters totalTaxBeforeCredits is -760.
\<close>

lemma niit_negative_in_total_tax:
  "map_option (\<lambda>r. (agi r, totalTaxBeforeCredits r - regularTax r - capitalGainsTax r - seTax r))
     (calculateTotalTax exampleEnv
        (emptyForm\<lparr>totalWages := Num 300000, hasScheduleE := True,
           scheduleE := Some \<lparr>netIncome = Num (-20000), rentalIncome = Undefined,
             rentalExpenses = Undefined\<rparr>\<rparr>)) = Some (280000, -760)"
  by (simp add: calculateTotalTax_def stage_defs table_defs component_defs emptyForm_def
      exampleEnv_def Let_def)

end
